theory Spec2Isabelle
  imports Main
begin

section \<open>Data model (app/models.py)\<close>

datatype TeamColor = BLUE | RED

datatype MatchState = NOT_STARTED | RUNNING | PAUSED | FINISHED

text \<open>The \<open>.value\<close> of the two string enums, used in the notes of the events.\<close>

fun TeamColor_value :: "TeamColor \<Rightarrow> string" where
  "TeamColor_value BLUE = ''BLUE''"
| "TeamColor_value RED = ''RED''"

fun MatchState_value :: "MatchState \<Rightarrow> string" where
  "MatchState_value NOT_STARTED = ''NOT_STARTED''"
| "MatchState_value RUNNING = ''RUNNING''"
| "MatchState_value PAUSED = ''PAUSED''"
| "MatchState_value FINISHED = ''FINISHED''"

text \<open>A reading of \<open>datetime.utcnow()\<close>.\<close>

type_synonym datetime = nat

text \<open>
  Table \<open>matches\<close>. Python's unbounded \<open>int\<close> is \<open>int\<close>; the primary key is
  \<open>Optional[int]\<close>. The field \<open>id\<close> is written \<open>m_id\<close>.
\<close>

record Match =
  m_id :: "int option"
  blue_score :: int
  red_score :: int
  blue_gam_jeom :: int
  red_gam_jeom :: int
  current_round :: int
  match_state :: MatchState
  created_at :: datetime
  updated_at :: datetime

text \<open>
  Table \<open>match_events\<close>. Fields whose names other classes share carry the prefix
  \<open>ev_\<close>.
\<close>

record MatchEvent =
  ev_id :: "int option"
  ev_match_id :: int
  event_type :: string
  ev_team_color :: "TeamColor option"
  points_awarded :: int
  round_number :: int
  blue_score_before :: int
  red_score_before :: int
  blue_gam_jeom_before :: int
  red_gam_jeom_before :: int
  blue_score_after :: int
  red_score_after :: int
  blue_gam_jeom_after :: int
  red_gam_jeom_after :: int
  ev_notes :: "string option"
  ev_created_at :: datetime

text \<open>The request schemas. The service never reads their \<open>match_id\<close> and \<open>notes\<close>.\<close>

record ScoreAction =
  team_color :: TeamColor
  points :: int
  sa_match_id :: int

record GamJeomAction =
  penalized_team :: TeamColor
  gj_match_id :: int
  gj_notes :: "string option"

record MatchStateChange =
  sc_match_id :: int
  new_state :: MatchState
  sc_notes :: "string option"

record RoundChange =
  rc_match_id :: int
  new_round :: int

record MatchReset =
  mr_match_id :: int
  mr_notes :: "string option"

text \<open>\<open>CurrentMatchState\<close>: the snapshot handed to the user interface (prefix \<open>cs_\<close>).\<close>

record CurrentMatchState =
  cs_blue_score :: int
  cs_red_score :: int
  cs_blue_gam_jeom :: int
  cs_red_gam_jeom :: int
  cs_current_round :: int
  cs_match_state :: MatchState

text \<open>\<open>Match()\<close> with the defaults of its fields; the two timestamps come from the clock.\<close>

definition new_Match :: "datetime \<Rightarrow> datetime \<Rightarrow> Match" where
  "new_Match t_created t_updated =
     \<lparr>m_id = None, blue_score = 0, red_score = 0, blue_gam_jeom = 0, red_gam_jeom = 0,
      current_round = 1, match_state = NOT_STARTED,
      created_at = t_created, updated_at = t_updated\<rparr>"

text \<open>\<open>CurrentMatchState()\<close> with the defaults of its fields, which satisfy the constraints.\<close>

definition default_CurrentMatchState :: CurrentMatchState where
  "default_CurrentMatchState =
     \<lparr>cs_blue_score = 0, cs_red_score = 0, cs_blue_gam_jeom = 0, cs_red_gam_jeom = 0,
      cs_current_round = 1, cs_match_state = NOT_STARTED\<rparr>"

text \<open>
  The exceptions: the \<open>ValueError\<close> that the service raises, with its message, and the
  \<open>ValidationError\<close> that the constructor of a schema raises when a value lies outside
  the constraint of its field.
\<close>

datatype error = ValueError string | ValidationError

text \<open>
  \<open>CurrentMatchState(blue_score=..., ...)\<close>. The class is not a table, so its constructor
  checks the constraints of the fields: \<open>ge=0\<close> for the four counters, \<open>ge=1\<close> for
  \<open>current_round\<close>.
\<close>

definition CurrentMatchState_init ::
  "int \<Rightarrow> int \<Rightarrow> int \<Rightarrow> int \<Rightarrow> int \<Rightarrow> MatchState \<Rightarrow> error + CurrentMatchState" where
  "CurrentMatchState_init blue red blue_gj red_gj rnd st =
     (if 0 \<le> blue \<and> 0 \<le> red \<and> 0 \<le> blue_gj \<and> 0 \<le> red_gj \<and> 1 \<le> rnd
      then Inr \<lparr>cs_blue_score = blue, cs_red_score = red, cs_blue_gam_jeom = blue_gj,
                cs_red_gam_jeom = red_gj, cs_current_round = rnd, cs_match_state = st\<rparr>
      else Inl ValidationError)"

text \<open>
  The constraints that \<open>models.py\<close> declares on the fields of \<open>Match\<close> (\<open>ge=0\<close>,
  \<open>ge=1\<close>; a table class does not check them), of \<open>ScoreAction\<close> (\<open>ge=1, le=10\<close>)
  and of \<open>RoundChange\<close> (\<open>ge=1\<close>). The constructors of the two request schemas check
  theirs, so the service is handed only requests within them.
\<close>

definition Match_in_range :: "Match \<Rightarrow> bool" where
  "Match_in_range m \<longleftrightarrow>
     0 \<le> blue_score m \<and> 0 \<le> red_score m \<and> 0 \<le> blue_gam_jeom m \<and> 0 \<le> red_gam_jeom m
     \<and> 1 \<le> current_round m"

definition ScoreAction_in_range :: "ScoreAction \<Rightarrow> bool" where
  "ScoreAction_in_range a \<longleftrightarrow> 1 \<le> points a \<and> points a \<le> 10"

definition RoundChange_in_range :: "RoundChange \<Rightarrow> bool" where
  "RoundChange_in_range c \<longleftrightarrow> 1 \<le> new_round c"

section \<open>Formatting of integers in the notes\<close>

text \<open>Python's \<open>str\<close> of an \<open>int\<close>, as the f-strings of the notes apply it.\<close>

function digits :: "nat \<Rightarrow> string" where
  "digits n = (if n < 10 then [char_of (48 + n)]
               else digits (n div 10) @ [char_of (48 + n mod 10)])"
  by pat_completeness auto
termination
  by (relation "measure (\<lambda>n. n)") auto

declare digits.simps [simp del]

definition str_int :: "int \<Rightarrow> string" where
  "str_int i = (if i < 0 then CHR ''-'' # digits (nat (- i)) else digits (nat i))"

section \<open>The process and its database\<close>

text \<open>
  \<open>current_match_id\<close> is \<open>MatchService._current_match_id\<close>; \<open>matches\<close> and
  \<open>match_events\<close> are the rows of the two tables in insertion order; \<open>clock\<close> is the
  next reading of \<open>datetime.utcnow()\<close>.
\<close>

record world =
  current_match_id :: "int option"
  matches :: "Match list"
  match_events :: "MatchEvent list"
  clock :: datetime

text \<open>\<open>MatchService.__init__\<close> on an empty database.\<close>

definition init_world :: world where
  "init_world = \<lparr>current_match_id = None, matches = [], match_events = [], clock = 0\<rparr>"

definition utcnow :: "world \<Rightarrow> datetime \<times> world" where
  "utcnow w = (clock w, w\<lparr>clock := Suc (clock w)\<rparr>)"

text \<open>
  Modelled from the spec: \<open>app/database.py\<close> (\<open>get_session\<close> and the session it yields)
  is not among the sources. The spec's persistence adapter is a record store keyed by
  integer id with \<open>getMatch(id) -> Match | absent\<close>, \<open>saveMatch(Match)\<close> (full-record
  upsert), \<open>createMatch() -> MatchId\<close> (insert a record, return its unique id) and
  \<open>appendEvent(MatchEvent)\<close> (insert-only).
\<close>

definition session_get :: "Match list \<Rightarrow> int \<Rightarrow> Match option" where
  "session_get rows k = find (\<lambda>r. m_id r = Some k) rows"

text \<open>
  Modelled from the spec: \<open>saveMatch\<close> of the absent \<open>app/database.py\<close>, that is
  \<open>session.add(match); session.commit()\<close> for a row read with \<open>session.get\<close>.
\<close>

definition session_update :: "Match \<Rightarrow> world \<Rightarrow> world" where
  "session_update m w =
     w\<lparr>matches := map (\<lambda>r. if m_id r = m_id m then m else r) (matches w)\<rparr>"

text \<open>
  Modelled from the spec: the ids that the absent \<open>app/database.py\<close> assigns are
  unique. The database gives a new row one more than the largest id in its table.
\<close>

fun max_match_id :: "Match list \<Rightarrow> int" where
  "max_match_id [] = 0"
| "max_match_id (r # rs) =
     (case m_id r of None \<Rightarrow> max_match_id rs | Some k \<Rightarrow> max k (max_match_id rs))"

fun max_event_id :: "MatchEvent list \<Rightarrow> int" where
  "max_event_id [] = 0"
| "max_event_id (e # es) =
     (case ev_id e of None \<Rightarrow> max_event_id es | Some k \<Rightarrow> max k (max_event_id es))"

text \<open>
  Modelled from the spec: \<open>createMatch\<close> of the absent \<open>app/database.py\<close>, that is
  \<open>session.add(match); session.commit(); session.refresh(match)\<close> for a new object: the
  database assigns the next unused id, and the refreshed object carries it.
\<close>

definition session_insert_match :: "Match \<Rightarrow> world \<Rightarrow> Match \<times> world" where
  "session_insert_match m w =
     (let m' = m\<lparr>m_id := Some (max_match_id (matches w) + 1)\<rparr>
      in (m', w\<lparr>matches := matches w @ [m']\<rparr>))"

text \<open>
  Modelled from the spec: \<open>appendEvent\<close> of the absent \<open>app/database.py\<close>, that is
  \<open>session.add(event); session.commit()\<close> for a new event.
\<close>

definition session_insert_event :: "MatchEvent \<Rightarrow> world \<Rightarrow> world" where
  "session_insert_event e w =
     w\<lparr>match_events :=
         match_events w @ [e\<lparr>ev_id := Some (max_event_id (match_events w) + 1)\<rparr>]\<rparr>"

text \<open>The row of the selected match, if there is one, is within the constraints of \<open>Match\<close>.\<close>

definition selected_in_range :: "world \<Rightarrow> bool" where
  "selected_in_range w =
     (case current_match_id w of
        None \<Rightarrow> True
      | Some cid \<Rightarrow>
          (case session_get (matches w) cid of None \<Rightarrow> True | Some match \<Rightarrow> Match_in_range match))"

section \<open>The service (app/match_service.py)\<close>

text \<open>\<open>MatchService._record_event\<close>: builds the event (its \<open>created_at\<close> reads the clock)
  and inserts it. The three keyword parameters with defaults are the last three.\<close>

definition record_event ::
  "world \<Rightarrow> int \<Rightarrow> string \<Rightarrow> int \<Rightarrow> int \<Rightarrow> int \<Rightarrow> int \<Rightarrow> int \<Rightarrow> int \<Rightarrow> int \<Rightarrow> int \<Rightarrow> int \<Rightarrow>
   TeamColor option \<Rightarrow> int \<Rightarrow> string option \<Rightarrow> world" where
  "record_event w match_id ev_type round_no
      blue_score_bef red_score_bef blue_gam_jeom_bef red_gam_jeom_bef
      blue_score_aft red_score_aft blue_gam_jeom_aft red_gam_jeom_aft
      team points_awd notes =
     (let (now, w1) = utcnow w;
          event = \<lparr>ev_id = None, ev_match_id = match_id, event_type = ev_type,
                   ev_team_color = team, points_awarded = points_awd,
                   round_number = round_no,
                   blue_score_before = blue_score_bef, red_score_before = red_score_bef,
                   blue_gam_jeom_before = blue_gam_jeom_bef,
                   red_gam_jeom_before = red_gam_jeom_bef,
                   blue_score_after = blue_score_aft, red_score_after = red_score_aft,
                   blue_gam_jeom_after = blue_gam_jeom_aft,
                   red_gam_jeom_after = red_gam_jeom_aft,
                   ev_notes = notes, ev_created_at = now\<rparr>
      in session_insert_event event w1)"

definition create_new_match :: "world \<Rightarrow> (error + int) \<times> world" where
  "create_new_match w =
     (let (t_created, w1) = utcnow w;
          (t_updated, w2) = utcnow w1;
          (match, w3) = session_insert_match (new_Match t_created t_updated) w2
      in case m_id match of
           None \<Rightarrow> (Inl (ValueError ''Failed to create match''), w3)
         | Some mid \<Rightarrow>
             (let w4 = w3\<lparr>current_match_id := Some mid\<rparr>;
                  w5 = record_event w4 mid ''MATCH_CREATED'' 1 0 0 0 0 0 0 0 0
                         None 0 (Some ''New match created'')
              in (Inr mid, w5)))"

definition get_current_match_id :: "world \<Rightarrow> int option" where
  "get_current_match_id w = current_match_id w"

definition set_current_match_id :: "int \<Rightarrow> world \<Rightarrow> world" where
  "set_current_match_id match_id w = w\<lparr>current_match_id := Some match_id\<rparr>"

definition get_current_state :: "world \<Rightarrow> error + CurrentMatchState" where
  "get_current_state w =
     (case current_match_id w of
        None \<Rightarrow> Inr default_CurrentMatchState
      | Some cid \<Rightarrow>
          (case session_get (matches w) cid of
             None \<Rightarrow> Inr default_CurrentMatchState
           | Some match \<Rightarrow>
               CurrentMatchState_init (blue_score match) (red_score match)
                 (blue_gam_jeom match) (red_gam_jeom match)
                 (current_round match) (match_state match)))"

definition add_score :: "ScoreAction \<Rightarrow> world \<Rightarrow> (error + CurrentMatchState) \<times> world" where
  "add_score action w =
     (case current_match_id w of
        None \<Rightarrow> (Inl (ValueError ''No active match''), w)
      | Some cid \<Rightarrow>
          (case session_get (matches w) cid of
             None \<Rightarrow> (Inl (ValueError ''Match not found''), w)
           | Some match \<Rightarrow>
               (let blue_before = blue_score match;
                    red_before = red_score match;
                    blue_gj_before = blue_gam_jeom match;
                    red_gj_before = red_gam_jeom match;
                    match1 = (if team_color action = BLUE
                              then match\<lparr>blue_score := blue_score match + points action\<rparr>
                              else match\<lparr>red_score := red_score match + points action\<rparr>);
                    (now, w1) = utcnow w;
                    match2 = match1\<lparr>updated_at := now\<rparr>;
                    w2 = session_update match2 w1;
                    w3 = (case m_id match2 of
                            None \<Rightarrow> w2
                          | Some mid \<Rightarrow>
                              record_event w2 mid ''SCORE'' (current_round match2)
                                blue_before red_before blue_gj_before red_gj_before
                                (blue_score match2) (red_score match2)
                                (blue_gam_jeom match2) (red_gam_jeom match2)
                                (Some (team_color action)) (points action)
                                (Some (TeamColor_value (team_color action) @ '' team scored ''
                                       @ str_int (points action) @ '' points'')))
                in (get_current_state w3, w3))))"

definition add_gam_jeom ::
  "GamJeomAction \<Rightarrow> world \<Rightarrow> (error + CurrentMatchState) \<times> world" where
  "add_gam_jeom action w =
     (case current_match_id w of
        None \<Rightarrow> (Inl (ValueError ''No active match''), w)
      | Some cid \<Rightarrow>
          (case session_get (matches w) cid of
             None \<Rightarrow> (Inl (ValueError ''Match not found''), w)
           | Some match \<Rightarrow>
               (let blue_before = blue_score match;
                    red_before = red_score match;
                    blue_gj_before = blue_gam_jeom match;
                    red_gj_before = red_gam_jeom match;
                    match1 = (if penalized_team action = BLUE
                              then match\<lparr>blue_gam_jeom := blue_gam_jeom match + 1,
                                         red_score := red_score match + 1\<rparr>
                              else match\<lparr>red_gam_jeom := red_gam_jeom match + 1,
                                         blue_score := blue_score match + 1\<rparr>);
                    (now, w1) = utcnow w;
                    match2 = match1\<lparr>updated_at := now\<rparr>;
                    w2 = session_update match2 w1;
                    opposing_team = (if penalized_team action = BLUE then RED else BLUE);
                    w3 = (case m_id match2 of
                            None \<Rightarrow> w2
                          | Some mid \<Rightarrow>
                              record_event w2 mid ''GAM_JEOM'' (current_round match2)
                                blue_before red_before blue_gj_before red_gj_before
                                (blue_score match2) (red_score match2)
                                (blue_gam_jeom match2) (red_gam_jeom match2)
                                (Some (penalized_team action)) 1
                                (Some (''Gam-Jeom penalty for ''
                                       @ TeamColor_value (penalized_team action)
                                       @ '', point awarded to ''
                                       @ TeamColor_value opposing_team)))
                in (get_current_state w3, w3))))"

definition change_match_state ::
  "MatchStateChange \<Rightarrow> world \<Rightarrow> (error + CurrentMatchState) \<times> world" where
  "change_match_state change w =
     (case current_match_id w of
        None \<Rightarrow> (Inl (ValueError ''No active match''), w)
      | Some cid \<Rightarrow>
          (case session_get (matches w) cid of
             None \<Rightarrow> (Inl (ValueError ''Match not found''), w)
           | Some match \<Rightarrow>
               (let old_state = match_state match;
                    match1 = match\<lparr>match_state := new_state change\<rparr>;
                    (now, w1) = utcnow w;
                    match2 = match1\<lparr>updated_at := now\<rparr>;
                    w2 = session_update match2 w1;
                    w3 = (case m_id match2 of
                            None \<Rightarrow> w2
                          | Some mid \<Rightarrow>
                              record_event w2 mid ''STATE_CHANGE'' (current_round match2)
                                (blue_score match2) (red_score match2)
                                (blue_gam_jeom match2) (red_gam_jeom match2)
                                (blue_score match2) (red_score match2)
                                (blue_gam_jeom match2) (red_gam_jeom match2)
                                None 0
                                (Some (''Match state changed from ''
                                       @ MatchState_value old_state @ '' to ''
                                       @ MatchState_value (new_state change))))
                in (get_current_state w3, w3))))"

definition next_round :: "RoundChange \<Rightarrow> world \<Rightarrow> (error + CurrentMatchState) \<times> world" where
  "next_round change w =
     (case current_match_id w of
        None \<Rightarrow> (Inl (ValueError ''No active match''), w)
      | Some cid \<Rightarrow>
          (case session_get (matches w) cid of
             None \<Rightarrow> (Inl (ValueError ''Match not found''), w)
           | Some match \<Rightarrow>
               (let old_round = current_round match;
                    match1 = match\<lparr>current_round := new_round change\<rparr>;
                    (now, w1) = utcnow w;
                    match2 = match1\<lparr>updated_at := now\<rparr>;
                    w2 = session_update match2 w1;
                    w3 = (case m_id match2 of
                            None \<Rightarrow> w2
                          | Some mid \<Rightarrow>
                              record_event w2 mid ''ROUND_CHANGE'' (new_round change)
                                (blue_score match2) (red_score match2)
                                (blue_gam_jeom match2) (red_gam_jeom match2)
                                (blue_score match2) (red_score match2)
                                (blue_gam_jeom match2) (red_gam_jeom match2)
                                None 0
                                (Some (''Round changed from '' @ str_int old_round
                                       @ '' to '' @ str_int (new_round change))))
                in (get_current_state w3, w3))))"

text \<open>
  The note of the RESET event. The source text holds, between the two halves, the three
  characters U+00E2 U+2020 U+2019; they are given here as their eight UTF-8 bytes.
\<close>

definition reset_notes :: "int \<Rightarrow> int \<Rightarrow> int \<Rightarrow> int \<Rightarrow> int \<Rightarrow> string" where
  "reset_notes blue_before red_before blue_gj_before red_gj_before round_before =
     ''Match reset: Scores '' @ str_int blue_before @ ''-'' @ str_int red_before
     @ '', Gam-Jeom '' @ str_int blue_gj_before @ ''-'' @ str_int red_gj_before
     @ '', Round '' @ str_int round_before @ '' ''
     @ [CHR 0xC3, CHR 0xA2, CHR 0xE2, CHR 0x80, CHR 0xA0, CHR 0xE2, CHR 0x80, CHR 0x99]
     @ '' All reset to 0-0, 0-0, Round 1''"

definition reset_match :: "MatchReset \<Rightarrow> world \<Rightarrow> (error + CurrentMatchState) \<times> world" where
  "reset_match reset_action w =
     (case current_match_id w of
        None \<Rightarrow> (Inl (ValueError ''No active match''), w)
      | Some cid \<Rightarrow>
          (case session_get (matches w) cid of
             None \<Rightarrow> (Inl (ValueError ''Match not found''), w)
           | Some match \<Rightarrow>
               (let blue_before = blue_score match;
                    red_before = red_score match;
                    blue_gj_before = blue_gam_jeom match;
                    red_gj_before = red_gam_jeom match;
                    round_before = current_round match;
                    match1 = match\<lparr>blue_score := 0, red_score := 0, blue_gam_jeom := 0,
                                    red_gam_jeom := 0, current_round := 1,
                                    match_state := NOT_STARTED\<rparr>;
                    (now, w1) = utcnow w;
                    match2 = match1\<lparr>updated_at := now\<rparr>;
                    w2 = session_update match2 w1;
                    w3 = (case m_id match2 of
                            None \<Rightarrow> w2
                          | Some mid \<Rightarrow>
                              record_event w2 mid ''RESET'' 1
                                blue_before red_before blue_gj_before red_gj_before
                                0 0 0 0
                                None 0
                                (Some (reset_notes blue_before red_before blue_gj_before
                                         red_gj_before round_before)))
                in (get_current_state w3, w3))))"

section \<open>Calls and sequences of calls\<close>

text \<open>
  One call of an operation that works on the selected match, as the handlers of the user
  interface issue them, and a sequence of such calls run one after the other. An
  exception ends the sequence, as it would end the calling test.
\<close>

datatype call =
    AddScore ScoreAction
  | AddGamJeom GamJeomAction
  | ChangeMatchState MatchStateChange
  | NextRound RoundChange
  | ResetMatch MatchReset

fun perform :: "call \<Rightarrow> world \<Rightarrow> (error + CurrentMatchState) \<times> world" where
  "perform (AddScore a) w = add_score a w"
| "perform (AddGamJeom a) w = add_gam_jeom a w"
| "perform (ChangeMatchState c) w = change_match_state c w"
| "perform (NextRound c) w = next_round c w"
| "perform (ResetMatch r) w = reset_match r w"

fun run_calls :: "call list \<Rightarrow> world \<Rightarrow> error + world" where
  "run_calls [] w = Inr w"
| "run_calls (c # cs) w =
     (case perform c w of
        (Inl e, w') \<Rightarrow> Inl e
      | (Inr s, w') \<Rightarrow> run_calls cs w')"

text \<open>
  The state once the calls have been issued one after the other, whatever each of them
  returned or raised: a handler of \<open>scoring_ui.py\<close> catches the exception of its call,
  and the next handler runs on the state that call left.
\<close>

fun issue_calls :: "call list \<Rightarrow> world \<Rightarrow> world" where
  "issue_calls [] w = w"
| "issue_calls (c # cs) w = issue_calls cs (snd (perform c w))"

text \<open>The request of the call is within the constraints of its schema.\<close>

fun call_in_range :: "call \<Rightarrow> bool" where
  "call_in_range (AddScore a) = ScoreAction_in_range a"
| "call_in_range (AddGamJeom a) = True"
| "call_in_range (ChangeMatchState c) = True"
| "call_in_range (NextRound c) = RoundChange_in_range c"
| "call_in_range (ResetMatch r) = True"

section \<open>Sequences of scoring calls\<close>

text \<open>
  A sequence of \<open>add_score\<close> and \<open>add_gam_jeom\<close> calls is a list whose elements are the
  argument of the call: \<open>Inl\<close> a \<open>ScoreAction\<close>, \<open>Inr\<close> a \<open>GamJeomAction\<close>.
\<close>

fun scoring_call :: "ScoreAction + GamJeomAction \<Rightarrow> call" where
  "scoring_call (Inl a) = AddScore a"
| "scoring_call (Inr g) = AddGamJeom g"

text \<open>
  What one call of the sequence contributes to the blue score as the specification counts
  it: the points of an \<open>add_score\<close> addressed to BLUE, and one for an \<open>add_gam_jeom\<close>
  that penalises RED. Symmetrically for red.
\<close>

fun blue_points :: "ScoreAction + GamJeomAction \<Rightarrow> int" where
  "blue_points (Inl a) = (if team_color a = BLUE then points a else 0)"
| "blue_points (Inr g) = (if penalized_team g = RED then 1 else 0)"

fun red_points :: "ScoreAction + GamJeomAction \<Rightarrow> int" where
  "red_points (Inl a) = (if team_color a = RED then points a else 0)"
| "red_points (Inr g) = (if penalized_team g = BLUE then 1 else 0)"

section \<open>A concrete match\<close>

text \<open>
  The match of \<open>test_match_reset\<close> just before the reset: blue scored 5, red was
  penalised once, the round was set to 3 and the match started.
\<close>

definition example_match :: Match where
  "example_match =
     \<lparr>m_id = Some 1, blue_score = 6, red_score = 0, blue_gam_jeom = 0, red_gam_jeom = 1,
      current_round = 3, match_state = RUNNING, created_at = 0, updated_at = 9\<rparr>"

definition example_world :: world where
  "example_world =
     \<lparr>current_match_id = Some 1, matches = [example_match], match_events = [], clock = 11\<rparr>"

section \<open>The session\<close>

lemma session_get_m_id: "session_get rows k = Some m \<Longrightarrow> m_id m = Some k"
  by (auto simp: session_get_def find_Some_iff)

lemma session_update_fields [simp]:
  "current_match_id (session_update m w) = current_match_id w"
  "match_events (session_update m w) = match_events w"
  "clock (session_update m w) = clock w"
  by (simp_all add: session_update_def)

lemma session_get_map_same:
  "session_get rows k = Some m0 \<Longrightarrow> m_id m = Some k \<Longrightarrow>
   session_get (map (\<lambda>r. if m_id r = Some k then m else r) rows) k = Some m"
  by (induction rows) (auto simp: session_get_def)

lemma session_get_session_update:
  "session_get (matches w) k = Some m0 \<Longrightarrow> m_id m = Some k \<Longrightarrow>
   session_get (matches (session_update m w)) k = Some m"
  by (simp add: session_update_def session_get_map_same)

lemma record_event_fields [simp]:
  "current_match_id (record_event w mid ty rn a1 a2 a3 a4 b1 b2 b3 b4 tc pa nt) = current_match_id w"
  "matches (record_event w mid ty rn a1 a2 a3 a4 b1 b2 b3 b4 tc pa nt) = matches w"
  by (simp_all add: record_event_def utcnow_def session_insert_event_def)

subsection \<open>\<open>add_score\<close>\<close>

lemma add_score_unselected:
  "current_match_id w = None \<Longrightarrow>
   add_score a w = (Inl (ValueError ''No active match''), w)"
  by (simp add: add_score_def)

lemma add_score_missing:
  "current_match_id w = Some k \<Longrightarrow> session_get (matches w) k = None \<Longrightarrow>
   add_score a w = (Inl (ValueError ''Match not found''), w)"
  by (simp add: add_score_def)

lemma add_score_pointer:
  "current_match_id (snd (add_score a w)) = current_match_id w"
  by (simp add: add_score_def Let_def utcnow_def split: option.splits)

lemma add_score_result:
  assumes "current_match_id w = Some k" and "session_get (matches w) k = Some m"
  shows "fst (add_score a w) = get_current_state (snd (add_score a w))"
  using assms by (simp add: add_score_def Let_def utcnow_def)

lemma add_score_match:
  assumes "current_match_id w = Some k" and "session_get (matches w) k = Some m"
  shows "session_get (matches (snd (add_score a w))) k =
     Some (if team_color a = BLUE
           then m\<lparr>blue_score := blue_score m + points a, updated_at := clock w\<rparr>
           else m\<lparr>red_score := red_score m + points a, updated_at := clock w\<rparr>)"
  using assms session_get_m_id [OF assms(2)]
  by (simp add: add_score_def Let_def utcnow_def session_get_session_update)

lemma add_score_event:
  assumes "current_match_id w = Some k" and "session_get (matches w) k = Some m"
  shows "\<exists>e m'. match_events (snd (add_score a w)) = match_events w @ [e]
     \<and> session_get (matches (snd (add_score a w))) k = Some m'
     \<and> ev_match_id e = k \<and> event_type e = ''SCORE''
     \<and> round_number e = current_round m'
     \<and> blue_score_before e = blue_score m \<and> red_score_before e = red_score m
     \<and> blue_gam_jeom_before e = blue_gam_jeom m
     \<and> red_gam_jeom_before e = red_gam_jeom m
     \<and> blue_score_after e = blue_score m' \<and> red_score_after e = red_score m'
     \<and> blue_gam_jeom_after e = blue_gam_jeom m'
     \<and> red_gam_jeom_after e = red_gam_jeom m'
     \<and> ev_team_color e = Some (team_color a) \<and> points_awarded e = points a"
  using assms session_get_m_id [OF assms(2)] add_score_match [OF assms, of a]
  by (simp add: add_score_def Let_def utcnow_def record_event_def session_insert_event_def)

subsection \<open>\<open>add_gam_jeom\<close>\<close>

lemma add_gam_jeom_unselected:
  "current_match_id w = None \<Longrightarrow>
   add_gam_jeom a w = (Inl (ValueError ''No active match''), w)"
  by (simp add: add_gam_jeom_def)

lemma add_gam_jeom_missing:
  "current_match_id w = Some k \<Longrightarrow> session_get (matches w) k = None \<Longrightarrow>
   add_gam_jeom a w = (Inl (ValueError ''Match not found''), w)"
  by (simp add: add_gam_jeom_def)

lemma add_gam_jeom_pointer:
  "current_match_id (snd (add_gam_jeom a w)) = current_match_id w"
  by (simp add: add_gam_jeom_def Let_def utcnow_def split: option.splits)

lemma add_gam_jeom_result:
  assumes "current_match_id w = Some k" and "session_get (matches w) k = Some m"
  shows "fst (add_gam_jeom a w) = get_current_state (snd (add_gam_jeom a w))"
  using assms by (simp add: add_gam_jeom_def Let_def utcnow_def)

lemma add_gam_jeom_match:
  assumes "current_match_id w = Some k" and "session_get (matches w) k = Some m"
  shows "session_get (matches (snd (add_gam_jeom a w))) k =
     Some (if penalized_team a = BLUE
           then m\<lparr>blue_gam_jeom := blue_gam_jeom m + 1, red_score := red_score m + 1,
                  updated_at := clock w\<rparr>
           else m\<lparr>red_gam_jeom := red_gam_jeom m + 1, blue_score := blue_score m + 1,
                  updated_at := clock w\<rparr>)"
  using assms session_get_m_id [OF assms(2)]
  by (simp add: add_gam_jeom_def Let_def utcnow_def session_get_session_update)

lemma add_gam_jeom_event:
  assumes "current_match_id w = Some k" and "session_get (matches w) k = Some m"
  shows "\<exists>e m'. match_events (snd (add_gam_jeom a w)) = match_events w @ [e]
     \<and> session_get (matches (snd (add_gam_jeom a w))) k = Some m'
     \<and> ev_match_id e = k \<and> event_type e = ''GAM_JEOM''
     \<and> round_number e = current_round m'
     \<and> blue_score_before e = blue_score m \<and> red_score_before e = red_score m
     \<and> blue_gam_jeom_before e = blue_gam_jeom m
     \<and> red_gam_jeom_before e = red_gam_jeom m
     \<and> blue_score_after e = blue_score m' \<and> red_score_after e = red_score m'
     \<and> blue_gam_jeom_after e = blue_gam_jeom m'
     \<and> red_gam_jeom_after e = red_gam_jeom m'
     \<and> ev_team_color e = Some (penalized_team a) \<and> points_awarded e = 1"
  using assms session_get_m_id [OF assms(2)] add_gam_jeom_match [OF assms, of a]
  by (simp add: add_gam_jeom_def Let_def utcnow_def record_event_def session_insert_event_def)

subsection \<open>\<open>change_match_state\<close>\<close>

lemma change_match_state_unselected:
  "current_match_id w = None \<Longrightarrow>
   change_match_state a w = (Inl (ValueError ''No active match''), w)"
  by (simp add: change_match_state_def)

lemma change_match_state_missing:
  "current_match_id w = Some k \<Longrightarrow> session_get (matches w) k = None \<Longrightarrow>
   change_match_state a w = (Inl (ValueError ''Match not found''), w)"
  by (simp add: change_match_state_def)

lemma change_match_state_pointer:
  "current_match_id (snd (change_match_state a w)) = current_match_id w"
  by (simp add: change_match_state_def Let_def utcnow_def split: option.splits)

lemma change_match_state_result:
  assumes "current_match_id w = Some k" and "session_get (matches w) k = Some m"
  shows "fst (change_match_state a w) = get_current_state (snd (change_match_state a w))"
  using assms by (simp add: change_match_state_def Let_def utcnow_def)

lemma change_match_state_match:
  assumes "current_match_id w = Some k" and "session_get (matches w) k = Some m"
  shows "session_get (matches (snd (change_match_state a w))) k =
     Some (m\<lparr>match_state := new_state a, updated_at := clock w\<rparr>)"
  using assms session_get_m_id [OF assms(2)]
  by (simp add: change_match_state_def Let_def utcnow_def session_get_session_update)

lemma change_match_state_event:
  assumes "current_match_id w = Some k" and "session_get (matches w) k = Some m"
  shows "\<exists>e m'. match_events (snd (change_match_state a w)) = match_events w @ [e]
     \<and> session_get (matches (snd (change_match_state a w))) k = Some m'
     \<and> ev_match_id e = k \<and> event_type e = ''STATE_CHANGE''
     \<and> round_number e = current_round m'
     \<and> blue_score_before e = blue_score m \<and> red_score_before e = red_score m
     \<and> blue_gam_jeom_before e = blue_gam_jeom m
     \<and> red_gam_jeom_before e = red_gam_jeom m
     \<and> blue_score_after e = blue_score m' \<and> red_score_after e = red_score m'
     \<and> blue_gam_jeom_after e = blue_gam_jeom m'
     \<and> red_gam_jeom_after e = red_gam_jeom m'
     \<and> ev_team_color e = None \<and> points_awarded e = 0"
  using assms session_get_m_id [OF assms(2)] change_match_state_match [OF assms, of a]
  by (simp add: change_match_state_def Let_def utcnow_def record_event_def session_insert_event_def)

subsection \<open>\<open>next_round\<close>\<close>

lemma next_round_unselected:
  "current_match_id w = None \<Longrightarrow>
   next_round a w = (Inl (ValueError ''No active match''), w)"
  by (simp add: next_round_def)

lemma next_round_missing:
  "current_match_id w = Some k \<Longrightarrow> session_get (matches w) k = None \<Longrightarrow>
   next_round a w = (Inl (ValueError ''Match not found''), w)"
  by (simp add: next_round_def)

lemma next_round_pointer:
  "current_match_id (snd (next_round a w)) = current_match_id w"
  by (simp add: next_round_def Let_def utcnow_def split: option.splits)

lemma next_round_result:
  assumes "current_match_id w = Some k" and "session_get (matches w) k = Some m"
  shows "fst (next_round a w) = get_current_state (snd (next_round a w))"
  using assms by (simp add: next_round_def Let_def utcnow_def)

lemma next_round_match:
  assumes "current_match_id w = Some k" and "session_get (matches w) k = Some m"
  shows "session_get (matches (snd (next_round a w))) k =
     Some (m\<lparr>current_round := new_round a, updated_at := clock w\<rparr>)"
  using assms session_get_m_id [OF assms(2)]
  by (simp add: next_round_def Let_def utcnow_def session_get_session_update)

lemma next_round_event:
  assumes "current_match_id w = Some k" and "session_get (matches w) k = Some m"
  shows "\<exists>e m'. match_events (snd (next_round a w)) = match_events w @ [e]
     \<and> session_get (matches (snd (next_round a w))) k = Some m'
     \<and> ev_match_id e = k \<and> event_type e = ''ROUND_CHANGE''
     \<and> round_number e = current_round m'
     \<and> blue_score_before e = blue_score m \<and> red_score_before e = red_score m
     \<and> blue_gam_jeom_before e = blue_gam_jeom m
     \<and> red_gam_jeom_before e = red_gam_jeom m
     \<and> blue_score_after e = blue_score m' \<and> red_score_after e = red_score m'
     \<and> blue_gam_jeom_after e = blue_gam_jeom m'
     \<and> red_gam_jeom_after e = red_gam_jeom m'
     \<and> ev_team_color e = None \<and> points_awarded e = 0"
  using assms session_get_m_id [OF assms(2)] next_round_match [OF assms, of a]
  by (simp add: next_round_def Let_def utcnow_def record_event_def session_insert_event_def)

subsection \<open>\<open>reset_match\<close>\<close>

lemma reset_match_unselected:
  "current_match_id w = None \<Longrightarrow>
   reset_match a w = (Inl (ValueError ''No active match''), w)"
  by (simp add: reset_match_def)

lemma reset_match_missing:
  "current_match_id w = Some k \<Longrightarrow> session_get (matches w) k = None \<Longrightarrow>
   reset_match a w = (Inl (ValueError ''Match not found''), w)"
  by (simp add: reset_match_def)

lemma reset_match_pointer:
  "current_match_id (snd (reset_match a w)) = current_match_id w"
  by (simp add: reset_match_def Let_def utcnow_def split: option.splits)

lemma reset_match_result:
  assumes "current_match_id w = Some k" and "session_get (matches w) k = Some m"
  shows "fst (reset_match a w) = get_current_state (snd (reset_match a w))"
  using assms by (simp add: reset_match_def Let_def utcnow_def)

lemma reset_match_match:
  assumes "current_match_id w = Some k" and "session_get (matches w) k = Some m"
  shows "session_get (matches (snd (reset_match a w))) k =
     Some (m\<lparr>blue_score := 0, red_score := 0, blue_gam_jeom := 0, red_gam_jeom := 0,
           current_round := 1, match_state := NOT_STARTED, updated_at := clock w\<rparr>)"
  using assms session_get_m_id [OF assms(2)]
  by (simp add: reset_match_def Let_def utcnow_def session_get_session_update)

lemma reset_match_event:
  assumes "current_match_id w = Some k" and "session_get (matches w) k = Some m"
  shows "\<exists>e m'. match_events (snd (reset_match a w)) = match_events w @ [e]
     \<and> session_get (matches (snd (reset_match a w))) k = Some m'
     \<and> ev_match_id e = k \<and> event_type e = ''RESET''
     \<and> round_number e = current_round m'
     \<and> blue_score_before e = blue_score m \<and> red_score_before e = red_score m
     \<and> blue_gam_jeom_before e = blue_gam_jeom m
     \<and> red_gam_jeom_before e = red_gam_jeom m
     \<and> blue_score_after e = blue_score m' \<and> red_score_after e = red_score m'
     \<and> blue_gam_jeom_after e = blue_gam_jeom m'
     \<and> red_gam_jeom_after e = red_gam_jeom m'
     \<and> ev_team_color e = None \<and> points_awarded e = 0"
  using assms session_get_m_id [OF assms(2)] reset_match_match [OF assms, of a]
  by (simp add: reset_match_def Let_def utcnow_def record_event_def session_insert_event_def)

section \<open>Creating a match and performing a call\<close>

lemma max_match_id_bound: "r \<in> set rows \<Longrightarrow> m_id r = Some k \<Longrightarrow> k \<le> max_match_id rows"
  by (induction rows) (auto split: option.splits)

lemma session_get_fresh: "session_get rows (max_match_id rows + 1) = None"
  using max_match_id_bound [of _ rows "max_match_id rows + 1"]
  by (fastforce simp: session_get_def find_None_iff)

lemma session_get_append_fresh:
  "session_get rows k = None \<Longrightarrow> m_id m = Some k \<Longrightarrow> session_get (rows @ [m]) k = Some m"
  by (induction rows) (auto simp: session_get_def split: if_splits)

lemma create_new_match_result:
  "fst (create_new_match w) = Inr (max_match_id (matches w) + 1)"
  by (simp add: create_new_match_def Let_def utcnow_def session_insert_match_def)

lemma create_new_match_pointer:
  "current_match_id (snd (create_new_match w)) = Some (max_match_id (matches w) + 1)"
  by (simp add: create_new_match_def Let_def utcnow_def session_insert_match_def)

lemma create_new_match_match:
  "session_get (matches (snd (create_new_match w))) (max_match_id (matches w) + 1) =
     Some ((new_Match (clock w) (Suc (clock w)))\<lparr>m_id := Some (max_match_id (matches w) + 1)\<rparr>)"
  by (simp add: create_new_match_def Let_def utcnow_def session_insert_match_def
        session_get_append_fresh session_get_fresh)

lemma create_new_match_event:
  "\<exists>e. match_events (snd (create_new_match w)) = match_events w @ [e]
     \<and> ev_match_id e = max_match_id (matches w) + 1 \<and> event_type e = ''MATCH_CREATED''
     \<and> round_number e = 1
     \<and> blue_score_before e = 0 \<and> red_score_before e = 0
     \<and> blue_gam_jeom_before e = 0 \<and> red_gam_jeom_before e = 0
     \<and> blue_score_after e = 0 \<and> red_score_after e = 0
     \<and> blue_gam_jeom_after e = 0 \<and> red_gam_jeom_after e = 0
     \<and> ev_team_color e = None \<and> points_awarded e = 0"
  by (simp add: create_new_match_def Let_def utcnow_def session_insert_match_def
        record_event_def session_insert_event_def)

lemma perform_unselected:
  "current_match_id w = None \<Longrightarrow> perform c w = (Inl (ValueError ''No active match''), w)"
  by (cases c)
     (simp_all add: add_score_unselected add_gam_jeom_unselected change_match_state_unselected
        next_round_unselected reset_match_unselected)

lemma perform_missing:
  "current_match_id w = Some k \<Longrightarrow> session_get (matches w) k = None \<Longrightarrow>
   perform c w = (Inl (ValueError ''Match not found''), w)"
  by (cases c)
     (simp_all add: add_score_missing add_gam_jeom_missing change_match_state_missing
        next_round_missing reset_match_missing)

lemma perform_pointer: "current_match_id (snd (perform c w)) = current_match_id w"
  by (cases c)
     (simp_all add: add_score_pointer add_gam_jeom_pointer change_match_state_pointer
        next_round_pointer reset_match_pointer)

lemma perform_result:
  "current_match_id w = Some k \<Longrightarrow> session_get (matches w) k = Some m \<Longrightarrow>
   fst (perform c w) = get_current_state (snd (perform c w))"
  by (cases c)
     (simp_all add: add_score_result add_gam_jeom_result change_match_state_result
        next_round_result reset_match_result)

lemma perform_snapshots:
  assumes "current_match_id w = Some k" and "session_get (matches w) k = Some m"
  shows "\<exists>e m'. match_events (snd (perform c w)) = match_events w @ [e]
     \<and> session_get (matches (snd (perform c w))) k = Some m'
     \<and> ev_match_id e = k \<and> round_number e = current_round m'
     \<and> blue_score_before e = blue_score m \<and> red_score_before e = red_score m
     \<and> blue_gam_jeom_before e = blue_gam_jeom m
     \<and> red_gam_jeom_before e = red_gam_jeom m
     \<and> blue_score_after e = blue_score m' \<and> red_score_after e = red_score m'
     \<and> blue_gam_jeom_after e = blue_gam_jeom m'
     \<and> red_gam_jeom_after e = red_gam_jeom m'"
proof (cases c)
  case (AddScore a)
  from add_score_event [OF assms, of a]
  show ?thesis unfolding AddScore perform.simps by blast
next
  case (AddGamJeom a)
  from add_gam_jeom_event [OF assms, of a]
  show ?thesis unfolding AddGamJeom perform.simps by blast
next
  case (ChangeMatchState a)
  from change_match_state_event [OF assms, of a]
  show ?thesis unfolding ChangeMatchState perform.simps by blast
next
  case (NextRound a)
  from next_round_event [OF assms, of a]
  show ?thesis unfolding NextRound perform.simps by blast
next
  case (ResetMatch a)
  from reset_match_event [OF assms, of a]
  show ?thesis unfolding ResetMatch perform.simps by blast
qed

section \<open>Running calls\<close>

lemma perform_round:
  assumes "current_match_id w = Some k" and "session_get (matches w) k = Some m"
  shows "\<exists>m'. session_get (matches (snd (perform c w))) k = Some m'
     \<and> current_round m' =
         (case c of NextRound r \<Rightarrow> new_round r | ResetMatch x \<Rightarrow> 1 | _ \<Rightarrow> current_round m)"
proof (cases c)
  case (AddScore a)
  with add_score_match [OF assms, of a] show ?thesis by simp
next
  case (AddGamJeom a)
  with add_gam_jeom_match [OF assms, of a] show ?thesis by simp
next
  case (ChangeMatchState a)
  with change_match_state_match [OF assms, of a] show ?thesis by simp
next
  case (NextRound a)
  with next_round_match [OF assms, of a] show ?thesis by simp
next
  case (ResetMatch a)
  with reset_match_match [OF assms, of a] show ?thesis by simp
qed

lemma run_calls_step:
  "fst (perform c w) = Inr s \<Longrightarrow> run_calls (c # cs) w = run_calls cs (snd (perform c w))"
  by (cases "perform c w") auto

lemma scoring_call_scores:
  assumes "current_match_id w = Some k" and "session_get (matches w) k = Some m"
  shows "\<exists>m'. session_get (matches (snd (perform (scoring_call x) w))) k = Some m'
     \<and> blue_score m' = blue_score m + blue_points x
     \<and> red_score m' = red_score m + red_points x
     \<and> blue_gam_jeom m' = blue_gam_jeom m + (case x of Inl a \<Rightarrow> 0 | Inr g \<Rightarrow> red_points x)
     \<and> red_gam_jeom m' = red_gam_jeom m + (case x of Inl a \<Rightarrow> 0 | Inr g \<Rightarrow> blue_points x)"
proof (cases x)
  case (Inl a)
  with add_score_match [OF assms, of a] show ?thesis
    by (cases "team_color a") simp_all
next
  case (Inr g)
  with add_gam_jeom_match [OF assms, of g] show ?thesis
    by (cases "penalized_team g") simp_all
qed

lemma get_current_state_stored:
  "current_match_id w = Some k \<Longrightarrow> session_get (matches w) k = Some m \<Longrightarrow>
   get_current_state w =
     (if Match_in_range m
      then Inr \<lparr>cs_blue_score = blue_score m, cs_red_score = red_score m,
                cs_blue_gam_jeom = blue_gam_jeom m, cs_red_gam_jeom = red_gam_jeom m,
                cs_current_round = current_round m, cs_match_state = match_state m\<rparr>
      else Inl ValidationError)"
  by (simp add: get_current_state_def CurrentMatchState_init_def Match_in_range_def)

lemma perform_in_range:
  assumes "current_match_id w = Some k" and "session_get (matches w) k = Some m"
    and "Match_in_range m" and "call_in_range c"
  shows "\<exists>m'. session_get (matches (snd (perform c w))) k = Some m' \<and> Match_in_range m'"
proof (cases c)
  case (AddScore a)
  with add_score_match [OF assms(1,2), of a] assms(3,4) show ?thesis
    by (simp add: Match_in_range_def ScoreAction_in_range_def)
next
  case (AddGamJeom a)
  with add_gam_jeom_match [OF assms(1,2), of a] assms(3) show ?thesis
    by (simp add: Match_in_range_def)
next
  case (ChangeMatchState a)
  with change_match_state_match [OF assms(1,2), of a] assms(3) show ?thesis
    by (simp add: Match_in_range_def)
next
  case (NextRound a)
  with next_round_match [OF assms(1,2), of a] assms(3,4) show ?thesis
    by (simp add: Match_in_range_def RoundChange_in_range_def)
next
  case (ResetMatch a)
  with reset_match_match [OF assms(1,2), of a] show ?thesis
    by (simp add: Match_in_range_def)
qed

lemma perform_stored_result:
  assumes "current_match_id w = Some k" and "session_get (matches w) k = Some m"
    and "session_get (matches (snd (perform c w))) k = Some m'"
  shows "fst (perform c w) =
     (if Match_in_range m'
      then Inr \<lparr>cs_blue_score = blue_score m', cs_red_score = red_score m',
                cs_blue_gam_jeom = blue_gam_jeom m', cs_red_gam_jeom = red_gam_jeom m',
                cs_current_round = current_round m', cs_match_state = match_state m'\<rparr>
      else Inl ValidationError)"
proof -
  have "current_match_id (snd (perform c w)) = Some k"
    using assms(1) by (simp add: perform_pointer)
  from get_current_state_stored [OF this assms(3)] perform_result [OF assms(1,2), of c]
  show ?thesis by simp
qed

lemma issue_scoring_calls:
  assumes "current_match_id w = Some k" and "session_get (matches w) k = Some m"
  shows "\<exists>m'. current_match_id (issue_calls (map scoring_call xs) w) = Some k
     \<and> session_get (matches (issue_calls (map scoring_call xs) w)) k = Some m'
     \<and> blue_score m' = blue_score m + sum_list (map blue_points xs)
     \<and> red_score m' = red_score m + sum_list (map red_points xs)"
  using assms
proof (induction xs arbitrary: w m)
  case Nil
  then show ?case by simp
next
  case (Cons x xs)
  let ?w1 = "snd (perform (scoring_call x) w)"
  from scoring_call_scores [OF Cons.prems, of x] obtain m1 where
    m1: "session_get (matches ?w1) k = Some m1"
        "blue_score m1 = blue_score m + blue_points x"
        "red_score m1 = red_score m + red_points x"
    by blast
  have ptr: "current_match_id ?w1 = Some k"
    using Cons.prems(1) by (simp add: perform_pointer)
  from Cons.IH [OF ptr m1(1)] m1(2,3) show ?case
    by auto
qed

lemma run_calls_in_range:
  assumes "current_match_id w = Some k" and "session_get (matches w) k = Some m"
    and "Match_in_range m" and "list_all call_in_range cs"
  shows "run_calls cs w = Inr (issue_calls cs w)
     \<and> (\<exists>m'. session_get (matches (issue_calls cs w)) k = Some m' \<and> Match_in_range m')"
  using assms
proof (induction cs arbitrary: w m)
  case Nil
  then show ?case by simp
next
  case (Cons c cs)
  let ?w1 = "snd (perform c w)"
  from Cons.prems(4) have c: "call_in_range c" and cs: "list_all call_in_range cs"
    by simp_all
  from perform_in_range [OF Cons.prems(1,2,3) c] obtain m1 where
    m1: "session_get (matches ?w1) k = Some m1" "Match_in_range m1"
    by blast
  have ptr: "current_match_id ?w1 = Some k"
    using Cons.prems(1) by (simp add: perform_pointer)
  from perform_stored_result [OF Cons.prems(1,2) m1(1)] m1(2)
  obtain s where "fst (perform c w) = Inr s"
    by auto
  from run_calls_step [OF this, of cs]
  have "run_calls (c # cs) w = run_calls cs ?w1" .
  with Cons.IH [OF ptr m1 cs] show ?case
    by simp
qed

section \<open>Gam-jeom penalties\<close>

text \<open>
  Claim C1. On a selected, stored match \<open>add_gam_jeom\<close> adds exactly 1 to the gam-jeom
  counter of the penalised team and exactly 1 to the score of the other team; the
  penalised team's own score and the other team's gam-jeom counter keep their values.
  Exactly one event is appended: a GAM_JEOM event that records the penalised team with
  \<open>points_awarded = 1\<close>.
\<close>

theorem add_gam_jeom_penalises_and_awards:
  assumes "current_match_id w = Some k" and "session_get (matches w) k = Some m"
  shows "\<exists>m' e. session_get (matches (snd (add_gam_jeom a w))) k = Some m'
     \<and> blue_gam_jeom m' = blue_gam_jeom m + (if penalized_team a = BLUE then 1 else 0)
     \<and> red_gam_jeom m' = red_gam_jeom m + (if penalized_team a = RED then 1 else 0)
     \<and> blue_score m' = blue_score m + (if penalized_team a = RED then 1 else 0)
     \<and> red_score m' = red_score m + (if penalized_team a = BLUE then 1 else 0)
     \<and> match_events (snd (add_gam_jeom a w)) = match_events w @ [e]
     \<and> event_type e = ''GAM_JEOM'' \<and> ev_match_id e = k
     \<and> ev_team_color e = Some (penalized_team a) \<and> points_awarded e = 1"
proof -
  from add_gam_jeom_event [OF assms, of a] obtain e where
    e: "match_events (snd (add_gam_jeom a w)) = match_events w @ [e]"
       "event_type e = ''GAM_JEOM''" "ev_match_id e = k"
       "ev_team_color e = Some (penalized_team a)" "points_awarded e = 1"
    by blast
  show ?thesis
  proof (cases "penalized_team a")
    case BLUE
    with add_gam_jeom_match [OF assms, of a] e show ?thesis by simp
  next
    case RED
    with add_gam_jeom_match [OF assms, of a] e show ?thesis by simp
  qed
qed

theorem add_gam_jeom_penalises_and_awards_witness:
  "current_match_id example_world = Some 1
   \<and> session_get (matches example_world) 1 = Some example_match
   \<and> (\<exists>m' e. session_get (matches (snd (add_gam_jeom
            \<lparr>penalized_team = BLUE, gj_match_id = 1, gj_notes = None\<rparr> example_world))) 1 = Some m'
        \<and> blue_gam_jeom m' = 1 \<and> red_gam_jeom m' = 1 \<and> blue_score m' = 6 \<and> red_score m' = 1
        \<and> match_events (snd (add_gam_jeom
            \<lparr>penalized_team = BLUE, gj_match_id = 1, gj_notes = None\<rparr> example_world)) = [e]
        \<and> event_type e = ''GAM_JEOM'' \<and> ev_team_color e = Some BLUE \<and> points_awarded e = 1)"
proof -
  have sel: "current_match_id example_world = Some 1"
    by (simp add: example_world_def)
  have stored: "session_get (matches example_world) 1 = Some example_match"
    by (simp add: example_world_def example_match_def session_get_def)
  from add_gam_jeom_penalises_and_awards [OF sel stored,
      of "\<lparr>penalized_team = BLUE, gj_match_id = 1, gj_notes = None\<rparr>"]
  obtain m' e where
    "session_get (matches (snd (add_gam_jeom
        \<lparr>penalized_team = BLUE, gj_match_id = 1, gj_notes = None\<rparr> example_world))) 1 = Some m'"
    "blue_gam_jeom m' = 1" "red_gam_jeom m' = 1" "blue_score m' = 6" "red_score m' = 1"
    "match_events (snd (add_gam_jeom
        \<lparr>penalized_team = BLUE, gj_match_id = 1, gj_notes = None\<rparr> example_world)) = [e]"
    "event_type e = ''GAM_JEOM''" "ev_team_color e = Some BLUE" "points_awarded e = 1"
    by (auto simp: example_world_def example_match_def)
  with sel stored show ?thesis by blast
qed

section \<open>The audit trail\<close>

text \<open>
  Claim C2. Each of \<open>add_score\<close>, \<open>add_gam_jeom\<close>, \<open>change_match_state\<close>,
  \<open>next_round\<close> and \<open>reset_match\<close>, called on a selected, stored match, appends exactly
  one event; its four "before" fields are the four counters of the match before the call
  and its four "after" fields are the four counters of the match after it.
  \<open>create_new_match\<close> appends exactly one event as well, for the match it creates (which
  was not stored before): its "before" fields are 0 and its "after" fields are the
  counters of the new match, also 0.
\<close>

theorem mutation_appends_one_event_with_snapshots:
  "(current_match_id w = Some k \<and> session_get (matches w) k = Some m \<longrightarrow>
      (\<exists>e m'. match_events (snd (perform c w)) = match_events w @ [e]
         \<and> session_get (matches (snd (perform c w))) k = Some m'
         \<and> ev_match_id e = k
         \<and> blue_score_before e = blue_score m \<and> red_score_before e = red_score m
         \<and> blue_gam_jeom_before e = blue_gam_jeom m
         \<and> red_gam_jeom_before e = red_gam_jeom m
         \<and> blue_score_after e = blue_score m' \<and> red_score_after e = red_score m'
         \<and> blue_gam_jeom_after e = blue_gam_jeom m'
         \<and> red_gam_jeom_after e = red_gam_jeom m'))
   \<and> (\<exists>k' e m'. fst (create_new_match w) = Inr k'
         \<and> session_get (matches w) k' = None
         \<and> match_events (snd (create_new_match w)) = match_events w @ [e]
         \<and> session_get (matches (snd (create_new_match w))) k' = Some m'
         \<and> ev_match_id e = k'
         \<and> blue_score_before e = 0 \<and> red_score_before e = 0
         \<and> blue_gam_jeom_before e = 0 \<and> red_gam_jeom_before e = 0
         \<and> blue_score_after e = blue_score m' \<and> red_score_after e = red_score m'
         \<and> blue_gam_jeom_after e = blue_gam_jeom m'
         \<and> red_gam_jeom_after e = red_gam_jeom m')"
proof (intro conjI impI)
  assume "current_match_id w = Some k \<and> session_get (matches w) k = Some m"
  then have sel: "current_match_id w = Some k" and stored: "session_get (matches w) k = Some m"
    by simp_all
  from perform_snapshots [OF sel stored, of c]
  show "\<exists>e m'. match_events (snd (perform c w)) = match_events w @ [e]
         \<and> session_get (matches (snd (perform c w))) k = Some m'
         \<and> ev_match_id e = k
         \<and> blue_score_before e = blue_score m \<and> red_score_before e = red_score m
         \<and> blue_gam_jeom_before e = blue_gam_jeom m
         \<and> red_gam_jeom_before e = red_gam_jeom m
         \<and> blue_score_after e = blue_score m' \<and> red_score_after e = red_score m'
         \<and> blue_gam_jeom_after e = blue_gam_jeom m'
         \<and> red_gam_jeom_after e = red_gam_jeom m'"
    by blast
next
  let ?k = "max_match_id (matches w) + 1"
  let ?m0 = "(new_Match (clock w) (Suc (clock w)))\<lparr>m_id := Some ?k\<rparr>"
  from create_new_match_event [of w] obtain e where
    e: "match_events (snd (create_new_match w)) = match_events w @ [e]"
       "ev_match_id e = ?k"
       "blue_score_before e = 0" "red_score_before e = 0"
       "blue_gam_jeom_before e = 0" "red_gam_jeom_before e = 0"
       "blue_score_after e = 0" "red_score_after e = 0"
       "blue_gam_jeom_after e = 0" "red_gam_jeom_after e = 0"
    by blast
  have zero: "blue_score ?m0 = 0" "red_score ?m0 = 0"
             "blue_gam_jeom ?m0 = 0" "red_gam_jeom ?m0 = 0"
    by (simp_all add: new_Match_def)
  from e zero create_new_match_result [of w] session_get_fresh [of "matches w"]
    create_new_match_match [of w]
  show "\<exists>k' e m'. fst (create_new_match w) = Inr k'
         \<and> session_get (matches w) k' = None
         \<and> match_events (snd (create_new_match w)) = match_events w @ [e]
         \<and> session_get (matches (snd (create_new_match w))) k' = Some m'
         \<and> ev_match_id e = k'
         \<and> blue_score_before e = 0 \<and> red_score_before e = 0
         \<and> blue_gam_jeom_before e = 0 \<and> red_gam_jeom_before e = 0
         \<and> blue_score_after e = blue_score m' \<and> red_score_after e = red_score m'
         \<and> blue_gam_jeom_after e = blue_gam_jeom m'
         \<and> red_gam_jeom_after e = red_gam_jeom m'"
    by (intro exI [of _ ?k] exI [of _ e] exI [of _ ?m0]) simp
qed

text \<open>The reset of the example match: the event holds 6, 0, 0, 1 before and zeros after.\<close>

theorem mutation_appends_one_event_with_snapshots_witness:
  "current_match_id example_world = Some 1
   \<and> session_get (matches example_world) 1 = Some example_match
   \<and> (\<exists>e m'. match_events (snd (perform (ResetMatch \<lparr>mr_match_id = 1, mr_notes = None\<rparr>)
                  example_world)) = [e]
        \<and> session_get (matches (snd (perform (ResetMatch \<lparr>mr_match_id = 1, mr_notes = None\<rparr>)
                  example_world))) 1 = Some m'
        \<and> blue_score_before e = 6 \<and> red_score_before e = 0
        \<and> blue_gam_jeom_before e = 0 \<and> red_gam_jeom_before e = 1
        \<and> blue_score_after e = blue_score m' \<and> red_score_after e = red_score m'
        \<and> blue_gam_jeom_after e = blue_gam_jeom m'
        \<and> red_gam_jeom_after e = red_gam_jeom m')"
proof -
  have sel: "current_match_id example_world = Some 1"
    by (simp add: example_world_def)
  have stored: "session_get (matches example_world) 1 = Some example_match"
    by (simp add: example_world_def example_match_def session_get_def)
  from mutation_appends_one_event_with_snapshots
         [of example_world 1 example_match "ResetMatch \<lparr>mr_match_id = 1, mr_notes = None\<rparr>"]
       sel stored
  obtain e m' where
    "match_events (snd (perform (ResetMatch \<lparr>mr_match_id = 1, mr_notes = None\<rparr>)
        example_world)) = match_events example_world @ [e]"
    "session_get (matches (snd (perform (ResetMatch \<lparr>mr_match_id = 1, mr_notes = None\<rparr>)
        example_world))) 1 = Some m'"
    "blue_score_before e = blue_score example_match"
    "red_score_before e = red_score example_match"
    "blue_gam_jeom_before e = blue_gam_jeom example_match"
    "red_gam_jeom_before e = red_gam_jeom example_match"
    "blue_score_after e = blue_score m'" "red_score_after e = red_score m'"
    "blue_gam_jeom_after e = blue_gam_jeom m'" "red_gam_jeom_after e = red_gam_jeom m'"
    by blast
  moreover have "match_events example_world = []"
    by (simp add: example_world_def)
  moreover have "blue_score example_match = 6" "red_score example_match = 0"
    "blue_gam_jeom example_match = 0" "red_gam_jeom example_match = 1"
    by (simp_all add: example_match_def)
  ultimately show ?thesis using sel stored by (intro conjI exI [of _ e] exI [of _ m']) simp_all
qed

text \<open>
  Claim C8. The \<open>round_number\<close> of the event that an operation appends is the
  \<open>current_round\<close> of the match at the moment the event is recorded, that is once the
  operation has changed the match: the new round for \<open>next_round\<close>, 1 for
  \<open>reset_match\<close> and \<open>create_new_match\<close>, and the unchanged round of the match for
  \<open>add_score\<close>, \<open>add_gam_jeom\<close> and \<open>change_match_state\<close>.
\<close>

theorem event_round_number_is_current_round:
  "(current_match_id w = Some k \<and> session_get (matches w) k = Some m \<longrightarrow>
      (\<exists>e m'. match_events (snd (perform c w)) = match_events w @ [e]
         \<and> session_get (matches (snd (perform c w))) k = Some m'
         \<and> round_number e = current_round m'
         \<and> round_number e =
             (case c of NextRound r \<Rightarrow> new_round r | ResetMatch x \<Rightarrow> 1
              | _ \<Rightarrow> current_round m)))
   \<and> (\<exists>k' e m'. fst (create_new_match w) = Inr k'
         \<and> match_events (snd (create_new_match w)) = match_events w @ [e]
         \<and> session_get (matches (snd (create_new_match w))) k' = Some m'
         \<and> round_number e = current_round m' \<and> round_number e = 1)"
proof (intro conjI impI)
  assume "current_match_id w = Some k \<and> session_get (matches w) k = Some m"
  then have sel: "current_match_id w = Some k" and stored: "session_get (matches w) k = Some m"
    by simp_all
  from perform_snapshots [OF sel stored, of c] obtain e m' where
    e: "match_events (snd (perform c w)) = match_events w @ [e]"
       "session_get (matches (snd (perform c w))) k = Some m'"
       "round_number e = current_round m'"
    by blast
  from perform_round [OF sel stored, of c] e(2)
  have "current_round m' =
      (case c of NextRound r \<Rightarrow> new_round r | ResetMatch x \<Rightarrow> 1 | _ \<Rightarrow> current_round m)"
    by simp
  with e show "\<exists>e m'. match_events (snd (perform c w)) = match_events w @ [e]
         \<and> session_get (matches (snd (perform c w))) k = Some m'
         \<and> round_number e = current_round m'
         \<and> round_number e =
             (case c of NextRound r \<Rightarrow> new_round r | ResetMatch x \<Rightarrow> 1
              | _ \<Rightarrow> current_round m)"
    by (intro exI [of _ e] exI [of _ m']) simp
next
  let ?k = "max_match_id (matches w) + 1"
  let ?m0 = "(new_Match (clock w) (Suc (clock w)))\<lparr>m_id := Some ?k\<rparr>"
  from create_new_match_event [of w] obtain e where
    e: "match_events (snd (create_new_match w)) = match_events w @ [e]" "round_number e = 1"
    by blast
  have "current_round ?m0 = 1"
    by (simp add: new_Match_def)
  with e create_new_match_result [of w] create_new_match_match [of w]
  show "\<exists>k' e m'. fst (create_new_match w) = Inr k'
         \<and> match_events (snd (create_new_match w)) = match_events w @ [e]
         \<and> session_get (matches (snd (create_new_match w))) k' = Some m'
         \<and> round_number e = current_round m' \<and> round_number e = 1"
    by (intro exI [of _ ?k] exI [of _ e] exI [of _ ?m0]) simp
qed

text \<open>Setting the example match, in round 3, to round 4 records an event of round 4.\<close>

theorem event_round_number_is_current_round_witness:
  "current_match_id example_world = Some 1
   \<and> session_get (matches example_world) 1 = Some example_match
   \<and> (\<exists>e m'. match_events (snd (perform (NextRound \<lparr>rc_match_id = 1, new_round = 4\<rparr>)
                  example_world)) = [e]
        \<and> session_get (matches (snd (perform (NextRound \<lparr>rc_match_id = 1, new_round = 4\<rparr>)
                  example_world))) 1 = Some m'
        \<and> round_number e = current_round m' \<and> round_number e = 4)"
proof -
  have sel: "current_match_id example_world = Some 1"
    by (simp add: example_world_def)
  have stored: "session_get (matches example_world) 1 = Some example_match"
    by (simp add: example_world_def example_match_def session_get_def)
  from event_round_number_is_current_round
         [of example_world 1 example_match "NextRound \<lparr>rc_match_id = 1, new_round = 4\<rparr>"]
       sel stored
  obtain e m' where
    "match_events (snd (perform (NextRound \<lparr>rc_match_id = 1, new_round = 4\<rparr>)
        example_world)) = match_events example_world @ [e]"
    "session_get (matches (snd (perform (NextRound \<lparr>rc_match_id = 1, new_round = 4\<rparr>)
        example_world))) 1 = Some m'"
    "round_number e = current_round m'"
    "round_number e = (case NextRound \<lparr>rc_match_id = 1, new_round = 4\<rparr> of
        NextRound r \<Rightarrow> new_round r | ResetMatch x \<Rightarrow> 1 | _ \<Rightarrow> current_round example_match)"
    by blast
  moreover have "match_events example_world = []"
    by (simp add: example_world_def)
  ultimately show ?thesis using sel stored by (intro conjI exI [of _ e] exI [of _ m']) simp_all
qed

section \<open>Scores after a sequence of scoring calls\<close>

text \<open>
  Claim C3. After \<open>create_new_match\<close>, once the calls of any finite sequence of
  \<open>add_score\<close> and \<open>add_gam_jeom\<close> calls have been issued, the created match has as
  blue score the sum of the points of the \<open>add_score\<close> calls addressed to BLUE plus the
  number of \<open>add_gam_jeom\<close> calls penalising RED, and as red score the symmetric sum.
  When the requests are within the constraints of their schemas (points from 1 to 10),
  as every constructed \<open>ScoreAction\<close> is, no call of the sequence raises, and the
  snapshot that \<open>get_current_state\<close> returns at the end holds the same two scores.
\<close>

theorem scores_after_scoring_calls:
  "\<exists>k w1 m. create_new_match w0 = (Inr k, w1)
     \<and> session_get (matches (issue_calls (map scoring_call xs) w1)) k = Some m
     \<and> blue_score m = sum_list (map blue_points xs)
     \<and> red_score m = sum_list (map red_points xs)
     \<and> (list_all call_in_range (map scoring_call xs) \<longrightarrow>
          run_calls (map scoring_call xs) w1 = Inr (issue_calls (map scoring_call xs) w1)
          \<and> (\<exists>s. get_current_state (issue_calls (map scoring_call xs) w1) = Inr s
                \<and> cs_blue_score s = sum_list (map blue_points xs)
                \<and> cs_red_score s = sum_list (map red_points xs)))"
proof -
  let ?k = "max_match_id (matches w0) + 1"
  let ?w1 = "snd (create_new_match w0)"
  let ?w2 = "issue_calls (map scoring_call xs) ?w1"
  let ?m0 = "(new_Match (clock w0) (Suc (clock w0)))\<lparr>m_id := Some ?k\<rparr>"
  have created: "create_new_match w0 = (Inr ?k, ?w1)"
    using create_new_match_result [of w0] by (cases "create_new_match w0") simp
  have sel: "current_match_id ?w1 = Some ?k"
    by (rule create_new_match_pointer)
  have stored: "session_get (matches ?w1) ?k = Some ?m0"
    by (rule create_new_match_match)
  have fresh: "Match_in_range ?m0" "blue_score ?m0 = 0" "red_score ?m0 = 0"
    by (simp_all add: new_Match_def Match_in_range_def)
  from issue_scoring_calls [OF sel stored, of xs] fresh(2,3) obtain m where
    m: "current_match_id ?w2 = Some ?k" "session_get (matches ?w2) ?k = Some m"
       "blue_score m = sum_list (map blue_points xs)"
       "red_score m = sum_list (map red_points xs)"
    by auto
  have "run_calls (map scoring_call xs) ?w1 = Inr ?w2
      \<and> (\<exists>s. get_current_state ?w2 = Inr s
            \<and> cs_blue_score s = sum_list (map blue_points xs)
            \<and> cs_red_score s = sum_list (map red_points xs))"
    if valid: "list_all call_in_range (map scoring_call xs)"
  proof -
    from run_calls_in_range [OF sel stored fresh(1) valid] m(2)
    have run: "run_calls (map scoring_call xs) ?w1 = Inr ?w2" and "Match_in_range m"
      by simp_all
    with get_current_state_stored [OF m(1,2)] m(3,4) show ?thesis
      by simp
  qed
  with created m(2,3,4) show ?thesis
    by blast
qed

text \<open>
  The scenario of the specification: create, \<open>add_score(BLUE, 3)\<close>, \<open>add_score(RED, 1)\<close>,
  \<open>add_gam_jeom(RED)\<close> ends with blue 4 and red 1, and no call raises.
\<close>

theorem scores_after_scoring_calls_witness:
  "list_all call_in_range (map scoring_call
          [Inl \<lparr>team_color = BLUE, points = 3, sa_match_id = 1\<rparr>,
           Inl \<lparr>team_color = RED, points = 1, sa_match_id = 1\<rparr>,
           Inr \<lparr>penalized_team = RED, gj_match_id = 1, gj_notes = None\<rparr>])
   \<and> (\<exists>k w1 w2 m s. create_new_match init_world = (Inr k, w1)
     \<and> run_calls (map scoring_call
          [Inl \<lparr>team_color = BLUE, points = 3, sa_match_id = 1\<rparr>,
           Inl \<lparr>team_color = RED, points = 1, sa_match_id = 1\<rparr>,
           Inr \<lparr>penalized_team = RED, gj_match_id = 1, gj_notes = None\<rparr>]) w1 = Inr w2
     \<and> session_get (matches w2) k = Some m
     \<and> blue_score m = 4 \<and> red_score m = 1
     \<and> get_current_state w2 = Inr s
     \<and> cs_blue_score s = 4 \<and> cs_red_score s = 1)"
proof -
  let ?xs = "[Inl \<lparr>team_color = BLUE, points = 3, sa_match_id = 1\<rparr>,
           Inl \<lparr>team_color = RED, points = 1, sa_match_id = 1\<rparr>,
           Inr \<lparr>penalized_team = RED, gj_match_id = 1, gj_notes = None\<rparr>]"
  have valid: "list_all call_in_range (map scoring_call ?xs)"
    by (simp add: ScoreAction_in_range_def)
  have sums: "sum_list (map blue_points ?xs) = 4" "sum_list (map red_points ?xs) = 1"
    by simp_all
  from scores_after_scoring_calls [of init_world ?xs] valid
  obtain k w1 m s where
    "create_new_match init_world = (Inr k, w1)"
    "session_get (matches (issue_calls (map scoring_call ?xs) w1)) k = Some m"
    "blue_score m = sum_list (map blue_points ?xs)"
    "red_score m = sum_list (map red_points ?xs)"
    "run_calls (map scoring_call ?xs) w1 = Inr (issue_calls (map scoring_call ?xs) w1)"
    "get_current_state (issue_calls (map scoring_call ?xs) w1) = Inr s"
    "cs_blue_score s = sum_list (map blue_points ?xs)"
    "cs_red_score s = sum_list (map red_points ?xs)"
    by blast
  with sums have "\<exists>k w1 w2 m s. create_new_match init_world = (Inr k, w1)
     \<and> run_calls (map scoring_call ?xs) w1 = Inr w2
     \<and> session_get (matches w2) k = Some m
     \<and> blue_score m = 4 \<and> red_score m = 1
     \<and> get_current_state w2 = Inr s
     \<and> cs_blue_score s = 4 \<and> cs_red_score s = 1"
    by (intro exI [of _ k] exI [of _ w1]
          exI [of _ "issue_calls (map scoring_call ?xs) w1"] exI [of _ m] exI [of _ s])
       (simp del: issue_calls.simps run_calls.simps scoring_call.simps list.map)
  with valid show ?thesis by blast
qed

section \<open>Reset\<close>

text \<open>
  Claim C4. On a selected, stored match \<open>reset_match\<close> sets the four counters to 0, the
  round to 1 and the state to NOT_STARTED, and returns that snapshot. A second
  \<open>reset_match\<close> right after the first leaves the match so and returns the same
  snapshot.
\<close>

theorem reset_match_zeroes_and_is_idempotent:
  assumes "current_match_id w = Some k" and "session_get (matches w) k = Some m"
  shows "fst (reset_match r w) =
       Inr \<lparr>cs_blue_score = 0, cs_red_score = 0, cs_blue_gam_jeom = 0, cs_red_gam_jeom = 0,
            cs_current_round = 1, cs_match_state = NOT_STARTED\<rparr>
     \<and> fst (reset_match r' (snd (reset_match r w))) = fst (reset_match r w)
     \<and> (\<exists>m1 m2. session_get (matches (snd (reset_match r w))) k = Some m1
          \<and> blue_score m1 = 0 \<and> red_score m1 = 0 \<and> blue_gam_jeom m1 = 0
          \<and> red_gam_jeom m1 = 0 \<and> current_round m1 = 1 \<and> match_state m1 = NOT_STARTED
          \<and> session_get (matches (snd (reset_match r' (snd (reset_match r w))))) k = Some m2
          \<and> blue_score m2 = 0 \<and> red_score m2 = 0 \<and> blue_gam_jeom m2 = 0
          \<and> red_gam_jeom m2 = 0 \<and> current_round m2 = 1 \<and> match_state m2 = NOT_STARTED)"
proof -
  let ?w1 = "snd (reset_match r w)"
  let ?w2 = "snd (reset_match r' ?w1)"
  let ?zero = "\<lparr>cs_blue_score = 0, cs_red_score = 0, cs_blue_gam_jeom = 0,
      cs_red_gam_jeom = 0, cs_current_round = 1, cs_match_state = NOT_STARTED\<rparr>"
  have sel1: "current_match_id ?w1 = Some k"
    using assms(1) by (simp add: reset_match_pointer)
  note stored1 = reset_match_match [OF assms, of r]
  have sel2: "current_match_id ?w2 = Some k"
    using sel1 by (simp add: reset_match_pointer)
  note stored2 = reset_match_match [OF sel1 stored1, of r']
  have "fst (reset_match r w) = get_current_state ?w1"
    by (rule reset_match_result [OF assms])
  moreover have "get_current_state ?w1 = Inr ?zero"
    using get_current_state_stored [OF sel1 stored1] by (simp add: Match_in_range_def)
  ultimately have first: "fst (reset_match r w) = Inr ?zero"
    by simp
  have "fst (reset_match r' ?w1) = get_current_state ?w2"
    by (rule reset_match_result [OF sel1 stored1])
  moreover have "get_current_state ?w2 = Inr ?zero"
    using get_current_state_stored [OF sel2 stored2] by (simp add: Match_in_range_def)
  ultimately have second: "fst (reset_match r' ?w1) = fst (reset_match r w)"
    using first by simp
  from first second stored1 stored2 show ?thesis
    by simp
qed

theorem reset_match_zeroes_and_is_idempotent_witness:
  "current_match_id example_world = Some 1
   \<and> session_get (matches example_world) 1 = Some example_match
   \<and> blue_score example_match = 6 \<and> current_round example_match = 3
   \<and> fst (reset_match \<lparr>mr_match_id = 1, mr_notes = None\<rparr> example_world) =
       Inr \<lparr>cs_blue_score = 0, cs_red_score = 0, cs_blue_gam_jeom = 0, cs_red_gam_jeom = 0,
            cs_current_round = 1, cs_match_state = NOT_STARTED\<rparr>
   \<and> fst (reset_match \<lparr>mr_match_id = 1, mr_notes = None\<rparr>
            (snd (reset_match \<lparr>mr_match_id = 1, mr_notes = None\<rparr> example_world))) =
       Inr \<lparr>cs_blue_score = 0, cs_red_score = 0, cs_blue_gam_jeom = 0, cs_red_gam_jeom = 0,
            cs_current_round = 1, cs_match_state = NOT_STARTED\<rparr>"
proof -
  have sel: "current_match_id example_world = Some 1"
    by (simp add: example_world_def)
  have stored: "session_get (matches example_world) 1 = Some example_match"
    by (simp add: example_world_def example_match_def session_get_def)
  have "blue_score example_match = 6" and "current_round example_match = 3"
    by (simp_all add: example_match_def)
  with sel stored
    reset_match_zeroes_and_is_idempotent [OF sel stored,
      of "\<lparr>mr_match_id = 1, mr_notes = None\<rparr>" "\<lparr>mr_match_id = 1, mr_notes = None\<rparr>"]
  show ?thesis by simp
qed

section \<open>Reading the state\<close>



section \<open>Errors\<close>

text \<open>
  Claim C6, as stated, fails for \<open>create_new_match\<close>: it is a mutating operation, and
  with no match id selected it raises nothing and returns the id of the new match.
\<close>

theorem create_new_match_raises_nothing_unselected:
  "current_match_id init_world = None \<and> fst (create_new_match init_world) = Inr 1"
  by (simp add: init_world_def create_new_match_def Let_def utcnow_def
        session_insert_match_def new_Match_def)

text \<open>
  Claim C6, amended. Take a request within the constraints of its schema and a state
  in which the row of the selected match, if there is one, is within the constraints of
  \<open>Match\<close>. Then each of \<open>add_score\<close>, \<open>add_gam_jeom\<close>, \<open>change_match_state\<close>,
  \<open>next_round\<close> and \<open>reset_match\<close> raises exactly when the current match id is unset
  or is the id of no stored match. What it raises is a \<open>ValueError\<close>, with the message
  "No active match" in the first case and "Match not found" in the second; with a
  stored match selected it returns the snapshot of the row it wrote, and that row is
  again within the constraints. \<open>create_new_match\<close> does not look at the selection: it
  returns the id of a new row, which is within the constraints.

  Without the two constraints the same holds but for one case, which the theorem also
  gives: with a stored match selected, the operation writes the row, and raises
  \<open>ValidationError\<close> from the snapshot if the row it wrote is outside the constraints.
\<close>

theorem value_error_exactly_without_valid_selection:
  "(call_in_range c \<and> selected_in_range w \<longrightarrow>
      ((\<exists>e. fst (perform c w) = Inl e) \<longleftrightarrow>
         (current_match_id w = None
          \<or> (\<exists>j. current_match_id w = Some j \<and> session_get (matches w) j = None))))
   \<and> (current_match_id w = None \<longrightarrow>
        fst (perform c w) = Inl (ValueError ''No active match''))
   \<and> (current_match_id w = Some k \<and> session_get (matches w) k = None \<longrightarrow>
        fst (perform c w) = Inl (ValueError ''Match not found''))
   \<and> (current_match_id w = Some k \<and> session_get (matches w) k = Some m \<longrightarrow>
        (\<exists>m'. session_get (matches (snd (perform c w))) k = Some m'
           \<and> fst (perform c w) =
               (if Match_in_range m'
                then Inr \<lparr>cs_blue_score = blue_score m', cs_red_score = red_score m',
                          cs_blue_gam_jeom = blue_gam_jeom m',
                          cs_red_gam_jeom = red_gam_jeom m',
                          cs_current_round = current_round m',
                          cs_match_state = match_state m'\<rparr>
                else Inl ValidationError)
           \<and> (Match_in_range m \<and> call_in_range c \<longrightarrow> Match_in_range m')))
   \<and> (\<exists>k' m0. fst (create_new_match w) = Inr k'
         \<and> session_get (matches (snd (create_new_match w))) k' = Some m0
         \<and> Match_in_range m0)"
proof -
  have unselected: "fst (perform c w) = Inl (ValueError ''No active match'')"
    if "current_match_id w = None"
    using that by (simp add: perform_unselected)
  have missing: "fst (perform c w) = Inl (ValueError ''Match not found'')"
    if "current_match_id w = Some j \<and> session_get (matches w) j = None" for j
    using that by (simp add: perform_missing)
  have stored: "\<exists>m'. session_get (matches (snd (perform c w))) j = Some m'
      \<and> fst (perform c w) =
          (if Match_in_range m'
           then Inr \<lparr>cs_blue_score = blue_score m', cs_red_score = red_score m',
                     cs_blue_gam_jeom = blue_gam_jeom m',
                     cs_red_gam_jeom = red_gam_jeom m',
                     cs_current_round = current_round m',
                     cs_match_state = match_state m'\<rparr>
           else Inl ValidationError)
      \<and> (Match_in_range n \<and> call_in_range c \<longrightarrow> Match_in_range m')"
    if sel: "current_match_id w = Some j \<and> session_get (matches w) j = Some n" for j n
  proof -
    from sel have s1: "current_match_id w = Some j" and s2: "session_get (matches w) j = Some n"
      by simp_all
    from perform_round [OF s1 s2, of c] obtain m' where
      m': "session_get (matches (snd (perform c w))) j = Some m'"
      by blast
    have "Match_in_range m'" if "Match_in_range n \<and> call_in_range c"
      using perform_in_range [OF s1 s2, of c] that m' by auto
    with m' perform_stored_result [OF s1 s2 m'] show ?thesis
      by blast
  qed
  have exactly: "(\<exists>e. fst (perform c w) = Inl e) \<longleftrightarrow>
      (current_match_id w = None
       \<or> (\<exists>j. current_match_id w = Some j \<and> session_get (matches w) j = None))"
    if ok: "call_in_range c \<and> selected_in_range w"
  proof (cases "current_match_id w")
    case None
    with unselected show ?thesis by simp
  next
    case (Some j)
    show ?thesis
    proof (cases "session_get (matches w) j")
      case None
      with Some missing [of j] show ?thesis by simp
    next
      case (Some n)
      with \<open>current_match_id w = Some j\<close> ok have "Match_in_range n"
        by (simp add: selected_in_range_def)
      with stored [of j n] Some \<open>current_match_id w = Some j\<close> ok show ?thesis
        by auto
    qed
  qed
  let ?k = "max_match_id (matches w) + 1"
  let ?m0 = "(new_Match (clock w) (Suc (clock w)))\<lparr>m_id := Some ?k\<rparr>"
  have "Match_in_range ?m0"
    by (simp add: new_Match_def Match_in_range_def)
  with create_new_match_result [of w] create_new_match_match [of w]
  have created: "\<exists>k' m0. fst (create_new_match w) = Inr k'
      \<and> session_get (matches (snd (create_new_match w))) k' = Some m0
      \<and> Match_in_range m0"
    by blast
  from exactly unselected missing [of k] stored [of k m] created show ?thesis
    by blast
qed

text \<open>
  With nothing selected a score is refused; with id 7 selected, which the example
  database does not hold, a reset is refused; with id 1 selected, a round change within
  its constraint raises nothing and leaves the row within the constraints.
\<close>

theorem value_error_exactly_without_valid_selection_witness:
  "current_match_id init_world = None
   \<and> fst (perform (AddScore \<lparr>team_color = BLUE, points = 1, sa_match_id = 999\<rparr>) init_world)
       = Inl (ValueError ''No active match'')
   \<and> current_match_id (set_current_match_id 7 example_world) = Some 7
   \<and> session_get (matches (set_current_match_id 7 example_world)) 7 = None
   \<and> fst (perform (ResetMatch \<lparr>mr_match_id = 7, mr_notes = None\<rparr>)
            (set_current_match_id 7 example_world))
       = Inl (ValueError ''Match not found'')
   \<and> current_match_id example_world = Some 1
   \<and> session_get (matches example_world) 1 = Some example_match
   \<and> Match_in_range example_match
   \<and> call_in_range (NextRound \<lparr>rc_match_id = 1, new_round = 4\<rparr>)
   \<and> selected_in_range example_world
   \<and> \<not> (\<exists>e. fst (perform (NextRound \<lparr>rc_match_id = 1, new_round = 4\<rparr>) example_world)
              = Inl e)
   \<and> (\<exists>m'. session_get (matches (snd (perform (NextRound \<lparr>rc_match_id = 1, new_round = 4\<rparr>)
                 example_world))) 1 = Some m'
          \<and> Match_in_range m')"
proof -
  have unsel: "current_match_id init_world = None"
    by (simp add: init_world_def)
  have sel7: "current_match_id (set_current_match_id 7 example_world) = Some 7"
    by (simp add: set_current_match_id_def)
  have missing: "session_get (matches (set_current_match_id 7 example_world)) 7 = None"
    by (simp add: set_current_match_id_def example_world_def example_match_def session_get_def)
  have sel1: "current_match_id example_world = Some 1"
    by (simp add: example_world_def)
  have stored: "session_get (matches example_world) 1 = Some example_match"
    by (simp add: example_world_def example_match_def session_get_def)
  have row: "Match_in_range example_match"
    by (simp add: example_match_def Match_in_range_def)
  have req: "call_in_range (NextRound \<lparr>rc_match_id = 1, new_round = 4\<rparr>)"
    by (simp add: RoundChange_in_range_def)
  have inv: "selected_in_range example_world"
    using sel1 stored row by (simp add: selected_in_range_def)
  from sel1 stored have valid: "\<not> (current_match_id example_world = None
      \<or> (\<exists>j. current_match_id example_world = Some j
            \<and> session_get (matches example_world) j = None))"
    by auto
  from unsel sel7 missing sel1 stored row req inv valid
    value_error_exactly_without_valid_selection
      [of "AddScore \<lparr>team_color = BLUE, points = 1, sa_match_id = 999\<rparr>" init_world]
    value_error_exactly_without_valid_selection
      [of "ResetMatch \<lparr>mr_match_id = 7, mr_notes = None\<rparr>"
          "set_current_match_id 7 example_world" 7]
    value_error_exactly_without_valid_selection
      [of "NextRound \<lparr>rc_match_id = 1, new_round = 4\<rparr>" example_world 1 example_match]
  show ?thesis by blast
qed

text \<open>
  Claim C7, as stated, fails for \<open>create_new_match\<close>: called in a process that has
  selected no match, on the database that holds the example match, it does not fail, and
  it writes a second match row and an event.
\<close>

theorem create_new_match_writes_unselected:
  "current_match_id (example_world\<lparr>current_match_id := None\<rparr>) = None
   \<and> fst (create_new_match (example_world\<lparr>current_match_id := None\<rparr>)) = Inr 2
   \<and> length (matches (example_world\<lparr>current_match_id := None\<rparr>)) = 1
   \<and> length (matches (snd (create_new_match (example_world\<lparr>current_match_id := None\<rparr>)))) = 2
   \<and> length (match_events (example_world\<lparr>current_match_id := None\<rparr>)) = 0
   \<and> length (match_events
        (snd (create_new_match (example_world\<lparr>current_match_id := None\<rparr>)))) = 1"
  by (simp add: example_world_def example_match_def create_new_match_def Let_def utcnow_def
        session_insert_match_def new_Match_def record_event_def session_insert_event_def)

text \<open>
  Claim C7, amended. Each of \<open>add_score\<close>, \<open>add_gam_jeom\<close>, \<open>change_match_state\<close>,
  \<open>next_round\<close> and \<open>reset_match\<close>, called while no match id is selected, raises
  \<open>ValueError\<close> "No active match" and leaves the process and the database as they
  were: no row of \<open>matches\<close> is changed and no event is appended.
\<close>

theorem unselected_call_fails_without_writes:
  assumes "current_match_id w = None"
  shows "perform c w = (Inl (ValueError ''No active match''), w)
     \<and> matches (snd (perform c w)) = matches w
     \<and> match_events (snd (perform c w)) = match_events w"
  using assms by (simp add: perform_unselected)

theorem unselected_call_fails_without_writes_witness:
  "current_match_id init_world = None
   \<and> perform (NextRound \<lparr>rc_match_id = 999, new_round = 2\<rparr>) init_world
       = (Inl (ValueError ''No active match''), init_world)
   \<and> matches (snd (perform (NextRound \<lparr>rc_match_id = 999, new_round = 2\<rparr>) init_world)) = []
   \<and> match_events (snd (perform (NextRound \<lparr>rc_match_id = 999, new_round = 2\<rparr>) init_world))
       = []"
proof -
  have unsel: "current_match_id init_world = None"
    by (simp add: init_world_def)
  have "matches init_world = []" and "match_events init_world = []"
    by (simp_all add: init_world_def)
  with unsel
    unselected_call_fails_without_writes
      [OF unsel, of "NextRound \<lparr>rc_match_id = 999, new_round = 2\<rparr>"]
  show ?thesis by simp
qed

section \<open>Frame of add_score\<close>

text \<open>
  Claim C9. On a selected, stored match \<open>add_score\<close> adds the points to the score of the
  chosen team and sets \<open>updated_at\<close>; the score of the other team, the two gam-jeom
  counters, the round, the state, the id and \<open>created_at\<close> of the match keep their
  values.
\<close>

theorem add_score_changes_only_chosen_score:
  assumes "current_match_id w = Some k" and "session_get (matches w) k = Some m"
  shows "\<exists>m'. session_get (matches (snd (add_score a w))) k = Some m'
     \<and> blue_score m' = blue_score m + (if team_color a = BLUE then points a else 0)
     \<and> red_score m' = red_score m + (if team_color a = RED then points a else 0)
     \<and> blue_gam_jeom m' = blue_gam_jeom m \<and> red_gam_jeom m' = red_gam_jeom m
     \<and> current_round m' = current_round m \<and> match_state m' = match_state m
     \<and> m_id m' = m_id m \<and> created_at m' = created_at m"
proof (cases "team_color a")
  case BLUE
  with add_score_match [OF assms, of a] show ?thesis by simp
next
  case RED
  with add_score_match [OF assms, of a] show ?thesis by simp
qed

theorem add_score_changes_only_chosen_score_witness:
  "current_match_id example_world = Some 1
   \<and> session_get (matches example_world) 1 = Some example_match
   \<and> (\<exists>m'. session_get (matches (snd (add_score
            \<lparr>team_color = RED, points = 3, sa_match_id = 1\<rparr> example_world))) 1 = Some m'
        \<and> blue_score m' = 6 \<and> red_score m' = 3
        \<and> blue_gam_jeom m' = 0 \<and> red_gam_jeom m' = 1
        \<and> current_round m' = 3 \<and> match_state m' = RUNNING)"
proof -
  have sel: "current_match_id example_world = Some 1"
    by (simp add: example_world_def)
  have stored: "session_get (matches example_world) 1 = Some example_match"
    by (simp add: example_world_def example_match_def session_get_def)
  from add_score_changes_only_chosen_score [OF sel stored,
      of "\<lparr>team_color = RED, points = 3, sa_match_id = 1\<rparr>"]
  obtain m' where
    "session_get (matches (snd (add_score
        \<lparr>team_color = RED, points = 3, sa_match_id = 1\<rparr> example_world))) 1 = Some m'"
    "blue_score m' = 6" "red_score m' = 3" "blue_gam_jeom m' = 0" "red_gam_jeom m' = 1"
    "current_round m' = 3" "match_state m' = RUNNING"
    by (auto simp: example_match_def)
  with sel stored show ?thesis by blast
qed

section \<open>The current-match pointer\<close>

text \<open>
  Claim C10. \<open>get_current_match_id\<close> right after \<open>set_current_match_id(id)\<close> returns
  \<open>id\<close>, for every integer \<open>id\<close>. \<open>add_score\<close>, \<open>add_gam_jeom\<close>,
  \<open>change_match_state\<close>, \<open>next_round\<close> and \<open>reset_match\<close> leave the pointer as it was,
  whether they succeed or raise; \<open>get_current_state\<close> and \<open>get_current_match_id\<close>
  write nothing. \<open>create_new_match\<close> sets the pointer to the id it returns.
\<close>

theorem current_match_pointer:
  "get_current_match_id (set_current_match_id i w) = Some i
   \<and> get_current_match_id (snd (perform c w)) = get_current_match_id w
   \<and> (\<exists>k'. fst (create_new_match w) = Inr k'
         \<and> get_current_match_id (snd (create_new_match w)) = Some k')"
  by (simp add: get_current_match_id_def set_current_match_id_def perform_pointer
        create_new_match_result create_new_match_pointer)

end
